theory Spec2Isabelle
  imports Complex_Main "HOL-Library.AList"
begin

section \<open>The load tester of lib/loadtest.js\<close>

text \<open>
  The development embeds \<^verbatim>\<open>lib/loadtest.js\<close>: the entry point \<^verbatim>\<open>loadTest\<close>, the
  \<^verbatim>\<open>Operation\<close> object with its \<^verbatim>\<open>start\<close>, \<^verbatim>\<open>callback\<close>, \<^verbatim>\<open>startClients\<close> and \<^verbatim>\<open>stop\<close>,
  and the \<^verbatim>\<open>HttpClient\<close> with \<^verbatim>\<open>init\<close>, \<^verbatim>\<open>start\<close>, \<^verbatim>\<open>stop\<close>, \<^verbatim>\<open>makeRequest\<close>,
  \<^verbatim>\<open>getRequestFinisher\<close> and \<^verbatim>\<open>getConnect\<close>.

  JavaScript runs these functions on one thread; each of them runs to completion once the
  event loop calls it. The state they share (the fields and closure variables of the
  Operation and of its clients) is the record \<open>world\<close> below, passed explicitly. What the
  event loop still owes the program (pending timeouts, running timers, requests waiting for
  their response) is part of that record, and one delivery of the event loop is one
  \<open>event\<close>. Every call that leaves the program (a request handed to the transport, a call
  of the latency tracker, a timer stopped, the caller's callback) is appended to the field
  \<open>trace\<close>, in the order in which the source performs the calls.

  Calls of \<^verbatim>\<open>log.debug\<close> change no state and are left out.
\<close>

subsection \<open>JavaScript values\<close>

text \<open>
  A field of the options object is absent (\<^verbatim>\<open>undefined\<close>), \<^verbatim>\<open>null\<close>, or holds a value of
  the type the documentation of \<^verbatim>\<open>loadTest\<close> gives it: counts are natural numbers, rates
  and durations are numbers (JavaScript doubles, idealised here as rationals; \<^verbatim>\<open>NaN\<close> is
  falsy and stands as \<open>Absent\<close>, since the source only ever tests these fields for
  truthiness before using them).
\<close>

datatype 'a jsfield = Absent | Null | Val 'a

fun truthy_when :: "('a \<Rightarrow> bool) \<Rightarrow> 'a jsfield \<Rightarrow> bool" where
  "truthy_when p (Val x) = p x"
| "truthy_when p Absent = False"
| "truthy_when p Null = False"

definition truthy_num :: "'a::zero jsfield \<Rightarrow> bool" where
  "truthy_num f = truthy_when (\<lambda>n. n \<noteq> 0) f"

definition truthy_str :: "string jsfield \<Rightarrow> bool" where
  "truthy_str f = truthy_when (\<lambda>s. s \<noteq> []) f"

definition truthy_bool :: "bool jsfield \<Rightarrow> bool" where
  "truthy_bool f = truthy_when (\<lambda>b. b) f"

definition truthy_obj :: "'a jsfield \<Rightarrow> bool" where
  "truthy_obj f = truthy_when (\<lambda>_. True) f"

text \<open>The values that travel through the completion callbacks: errors, results, error codes.\<close>

datatype jsvalue = Undefined | JNull | JBool bool | JString string | JNumber nat

fun truthy :: "jsvalue \<Rightarrow> bool" where
  "truthy Undefined = False"
| "truthy JNull = False"
| "truthy (JBool b) = b"
| "truthy (JString s) = (s \<noteq> [])"
| "truthy (JNumber n) = (n \<noteq> 0)"

text \<open>String concatenation with a number prints the number in decimal.\<close>

fun decimal :: "nat \<Rightarrow> string" where
  "decimal n =
     (if n < 10 then [char_of (48 + n)]
      else decimal (n div 10) @ [char_of (48 + n mod 10)])"

text \<open>
  Modelled from the spec: \<^verbatim>\<open>startsWith\<close> comes from \<^verbatim>\<open>prototypes.js\<close>, which is not among the
  sources. Section 9 of the specification has the client variant chosen from the scheme at
  the start of the target URL, so \<^verbatim>\<open>startsWith\<close> is the prefix test of its name.
\<close>

definition startsWith :: "string \<Rightarrow> string \<Rightarrow> bool" where
  "startsWith s p = (take (length p) s = p)"

subsection \<open>Options\<close>

text \<open>
  The body is documented as the contents to send, a string or an object; \<^verbatim>\<open>init\<close> also has a
  branch for a value of another type, so numbers and booleans are values of the field too.
  An object body is carried with the text \<^verbatim>\<open>JSON.stringify\<close> gives for it.
\<close>

datatype body = BodyString string | BodyObject string | BodyNumber nat | BodyBool bool

fun truthy_body :: "body jsfield \<Rightarrow> bool" where
  "truthy_body (Val (BodyString s)) = (s \<noteq> [])"
| "truthy_body (Val (BodyObject j)) = True"
| "truthy_body (Val (BodyNumber n)) = (n \<noteq> 0)"
| "truthy_body (Val (BodyBool b)) = b"
| "truthy_body Absent = False"
| "truthy_body Null = False"

fun typeof_body :: "body \<Rightarrow> string" where
  "typeof_body (BodyString s) = ''string''"
| "typeof_body (BodyObject j) = ''object''"
| "typeof_body (BodyNumber n) = ''number''"
| "typeof_body (BodyBool b) = ''boolean''"

record options =
  url :: "string jsfield"
  concurrency :: "nat jsfield"
  maxRequests :: "nat jsfield"
  maxSeconds :: "rat jsfield"
  cookies :: "string list jsfield"
  meth :: "string jsfield"
  body :: "body jsfield"
  contentType :: "string jsfield"
  requestsPerSecond :: "rat jsfield"
  noAgent :: "bool jsfield"
  agentKeepAlive :: "bool jsfield"
  indexParam :: "string jsfield"
  debug :: "bool jsfield"
  quiet :: "bool jsfield"

subsection \<open>Timers and the latency tracker\<close>

text \<open>
  Modelled from the spec: \<^verbatim>\<open>timing.js\<close> (\<^verbatim>\<open>HighResolutionTimer\<close> and \<^verbatim>\<open>Latency\<close>) is not among
  the sources. Section 4.1 of the specification: a timer invokes its action every period
  until it is stopped; \<^verbatim>\<open>stop\<close> cancels all future invocations and is idempotent. The
  invocations themselves are events of the event loop, see \<open>step\<close>.
\<close>

record timer =
  period :: rat
  active :: bool

definition HighResolutionTimer :: "rat \<Rightarrow> timer" where
  "HighResolutionTimer delayMs = \<lparr>period = delayMs, active = True\<rparr>"

definition timer_stop :: "timer \<Rightarrow> timer" where
  "timer_stop t = t\<lparr>active := False\<rparr>"

text \<open>
  Modelled from the spec: the latency tracker of \<^verbatim>\<open>timing.js\<close>, section 4.2 of the
  specification. \<^verbatim>\<open>start\<close> hands out an identifier of its own for every call; \<^verbatim>\<open>end\<close>
  finalises the record of a started identifier with its error code, and a call for an
  unknown or finalised identifier is counted apart and leaves the records alone;
  \<^verbatim>\<open>getResults\<close> is the aggregate over the finalised records.
\<close>

record latency =
  nextId :: nat
  pending :: "nat list"
  finished :: "(nat \<times> jsvalue) list"
  misuse :: nat

definition Latency :: latency where
  "Latency = \<lparr>nextId = 0, pending = [], finished = [], misuse = 0\<rparr>"

definition latency_start :: "latency \<Rightarrow> nat \<times> latency" where
  "latency_start l =
     (nextId l, l\<lparr>nextId := Suc (nextId l), pending := pending l @ [nextId l]\<rparr>)"

definition latency_end :: "nat \<Rightarrow> jsvalue \<Rightarrow> latency \<Rightarrow> latency" where
  "latency_end ident errorCode l =
     (if ident \<in> set (pending l)
      then l\<lparr>pending := remove1 ident (pending l),
             finished := finished l @ [(ident, errorCode)]\<rparr>
      else l\<lparr>misuse := Suc (misuse l)\<rparr>)"

record results =
  totalRequests :: nat
  totalErrors :: nat

definition getResults :: "latency \<Rightarrow> results" where
  "getResults l =
     \<lparr>totalRequests = length (finished l),
      totalErrors = length (filter (\<lambda>r. truthy (snd r)) (finished l))\<rparr>"

subsection \<open>Exceptions and observable actions\<close>

text \<open>
  An exception is a value. A \<^verbatim>\<open>ReferenceError\<close> comes from reading an undeclared identifier, a
  \<^verbatim>\<open>TypeError\<close> from reading a property of \<^verbatim>\<open>undefined\<close> or from \<^verbatim>\<open>urlLib.parse\<close> on a value
  that is not a string, an \<^verbatim>\<open>Error\<close> from \<^verbatim>\<open>http.request\<close>.
\<close>

datatype exn = ReferenceError string | TypeError string | Error string

datatype action =
    LogError string
  | ShowHelp
  | SetLogLevelDebug
  | Request nat nat "string option"
      \<comment> \<open>client index, latency id, message written: one request handed to the transport\<close>
  | LatencyEnd nat jsvalue
  | ShowPartial
  | ShowTimerStop
  | RunningFalse
  | ClientStop nat
  | FinalCallback results
  | Uncaught exn
      \<comment> \<open>an exception that left a callback of the event loop\<close>

subsection \<open>Clients\<close>

datatype agent = AgentOff | KeepAliveAgent "nat jsfield"

datatype header = HNumber nat | HString string | HList "string list"

record request_options =
  target :: string
  protocol :: "string option"
  agent :: "agent option"
  request_method :: "string option"
  headers :: "(string \<times> header) list"

datatype client_kind = HttpKind | WebSocketKind

record client =
  kind :: client_kind
  request :: request_options
  message :: "string option"
  requestTimer :: "timer option"

text \<open>
  \<^verbatim>\<open>urlLib.parse\<close> and \<^verbatim>\<open>http.request\<close> belong to Node, not to the repository. Of the parsed URL
  only the protocol matters to the functions below: the letters, digits, \<^verbatim>\<open>.\<close>, \<^verbatim>\<open>+\<close> and \<^verbatim>\<open>-\<close>
  that a URL starts with, when there is at least one and a colon follows, in lower case and
  with the colon (a URL that selects a client starts with \<^verbatim>\<open>http\<close> or \<^verbatim>\<open>ws://\<close>, so the leading
  white space that \<^verbatim>\<open>urlLib.parse\<close> trims does not occur). \<^verbatim>\<open>http.request\<close> throws, before it
  creates the request, when its options have a protocol other than \<^verbatim>\<open>http:\<close>.
\<close>

definition scheme_chars :: string where
  "scheme_chars = ''abcdefghijklmnopqrstuvwxyzABCDEFGHIJKLMNOPQRSTUVWXYZ0123456789.+-''"

definition toLowerCase :: "string \<Rightarrow> string" where
  "toLowerCase s =
     map (\<lambda>c. case map_of (zip ''ABCDEFGHIJKLMNOPQRSTUVWXYZ'' ''abcdefghijklmnopqrstuvwxyz'') c of
                Some d \<Rightarrow> d
              | None \<Rightarrow> c) s"

definition protocol_of :: "string \<Rightarrow> string option" where
  "protocol_of u =
     (case dropWhile (\<lambda>c. c \<in> set scheme_chars) u of
        c # rest \<Rightarrow>
          (if takeWhile (\<lambda>c. c \<in> set scheme_chars) u \<noteq> [] \<and> c = CHR '':''
           then Some (toLowerCase (takeWhile (\<lambda>c. c \<in> set scheme_chars) u) @ '':'')
           else None)
      | [] \<Rightarrow> None)"

definition http_request_throws :: "request_options \<Rightarrow> exn option" where
  "http_request_throws r =
     (case protocol r of
        Some p \<Rightarrow>
          (if p \<noteq> ''http:'' then Some (Error (''Protocol:'' @ p @ '' not supported.''))
           else None)
      | None \<Rightarrow> None)"

text \<open>
  \<^verbatim>\<open>init\<close> of \<^verbatim>\<open>HttpClient\<close>, lines 52 to 100: the request options and the message to send.
  \<^verbatim>\<open>message.length\<close> counts the characters of the message;
  \<^verbatim>\<open>require('agentkeepalive')\<close> is a dependency of the package and is taken to load. A truthy body that is neither a
  string nor an object is reported with \<^verbatim>\<open>log.error\<close> and leaves \<^verbatim>\<open>message\<close> undefined, so the
  next statement, which reads \<^verbatim>\<open>message.length\<close>, throws a \<^verbatim>\<open>TypeError\<close>. \<open>init_message\<close>
  gives what is logged together with the message or the exception.
\<close>

definition init_message :: "options \<Rightarrow> action list \<times> (exn + string option)" where
  "init_message params =
     (if truthy_body (body params)
      then (case body params of
              Val (BodyString s) \<Rightarrow> ([], Inr (Some s))
            | Val (BodyObject j) \<Rightarrow> ([], Inr (Some j))
            | Val b \<Rightarrow>
                ([LogError (''Unrecognized body: '' @ typeof_body b)],
                 Inl (TypeError ''message.length: message is undefined''))
            | _ \<Rightarrow> ([], Inr None))
      else ([], Inr None))"

definition init_headers :: "options \<Rightarrow> string option \<Rightarrow> (string \<times> header) list" where
  "init_headers params msg =
     (let h0 = [];
          h1 = (case msg of
                  Some m \<Rightarrow>
                    AList.update ''Content-Type''
                      (HString (if truthy_str (contentType params)
                                then (case contentType params of Val t \<Rightarrow> t | _ \<Rightarrow> [])
                                else ''text/plain''))
                      (AList.update ''Content-Length'' (HNumber (length m)) h0)
                | None \<Rightarrow> h0)
      in (if truthy_obj (cookies params)
          then (case cookies params of
                  Val cs \<Rightarrow> AList.update ''Set-Cookie'' (HList cs) h1
                | _ \<Rightarrow> h1)
          else h1))"

definition init_options :: "options \<Rightarrow> string \<Rightarrow> string option \<Rightarrow> request_options" where
  "init_options params u msg =
     (let a0 = None;
          a1 = (if truthy_bool (noAgent params) then Some AgentOff else a0);
          a2 = (if truthy_bool (agentKeepAlive params)
                then Some (KeepAliveAgent (concurrency params)) else a1)
      in \<lparr>target = u,
          protocol = protocol_of u,
          agent = a2,
          request_method =
            (if truthy_str (meth params)
             then (case meth params of Val m \<Rightarrow> Some m | _ \<Rightarrow> None) else None),
          headers = init_headers params msg\<rparr>)"

text \<open>
  \<^verbatim>\<open>new constructor(self, options)\<close>: what the constructor logs, and the client or the
  exception that ends the construction. \<^verbatim>\<open>urlLib.parse\<close> throws a \<^verbatim>\<open>TypeError\<close> for a URL that is
  not a string.

  Modelled from the spec: \<^verbatim>\<open>websocket.js\<close> (\<^verbatim>\<open>WebSocketClient\<close>) is not among the sources.
  Section 4.3 of the specification gives the WebSocket client the contract of the HTTP
  client, differing only in how one exchange is carried out, and section 6 has its
  transport report every failure through the completion callback. So the constructor yields
  the record below for either kind, a client of either kind runs the functions translated
  from \<^verbatim>\<open>HttpClient\<close>, and only the HTTP transport can throw when a request is handed to it.
\<close>

definition new_client :: "client_kind \<Rightarrow> options \<Rightarrow> action list \<times> (exn + client)" where
  "new_client k params =
     (case url params of
        Val u \<Rightarrow>
          (case init_message params of
             (logs, Inl e) \<Rightarrow> (logs, Inl e)
           | (logs, Inr msg) \<Rightarrow>
               (logs, Inr \<lparr>kind = k, request = init_options params u msg, message = msg,
                           requestTimer = None\<rparr>))
      | _ \<Rightarrow> ([], Inl (TypeError ''Parameter url must be a string'')))"

definition transport_throws :: "client \<Rightarrow> exn option" where
  "transport_throws c =
     (case kind c of
        HttpKind \<Rightarrow> http_request_throws (request c)
      | WebSocketKind \<Rightarrow> None)"

subsection \<open>The Operation and the event loop\<close>

definition SHOW_INTERVAL_MS :: rat where
  "SHOW_INTERVAL_MS = 5000"

record world =
  opts :: options
  ctor :: client_kind
  resultCallback :: bool
  running :: bool
  latency :: latency
  clients :: "(nat \<times> client) list"
  requests :: nat
  showTimer :: "timer option"
  stopTimeout :: "rat option"
  startTimeouts :: "nat list"
  inflight :: "(nat \<times> nat) list"
  settled :: "(nat \<times> nat) list"
  abrupt :: "exn option"
  trace :: "action list"

text \<open>
  \<open>opts\<close> is the one options object that \<^verbatim>\<open>loadTest\<close>, the Operation and every client
  (as \<^verbatim>\<open>params\<close>) share. \<open>resultCallback\<close> says whether \<^verbatim>\<open>loadTest\<close> was given a callback.
  \<open>stopTimeout\<close> is the pending \<^verbatim>\<open>setTimeout(stop, ...)\<close> with its delay, \<open>startTimeouts\<close> the
  clients whose \<^verbatim>\<open>setTimeout(client.start, offset)\<close> is pending. \<open>inflight\<close> holds the requests
  handed to the transport of which no handler has run yet, each latency id with the index of
  the client that made it; \<open>settled\<close> holds the requests of which a handler has run. The
  handlers of both stay registered. \<open>abrupt\<close> is the exception with which the running call is
  being left, if it is.
\<close>

definition emit :: "action \<Rightarrow> world \<Rightarrow> world" where
  "emit a w = w\<lparr>trace := trace w @ [a]\<rparr>"

text \<open>\<^verbatim>\<open>Operation.stop\<close>, lines 346 to 361, statement by statement.\<close>

definition stop_showTimer :: "world \<Rightarrow> world" where
  "stop_showTimer w =
     (case showTimer w of
        Some t \<Rightarrow> emit ShowTimerStop (w\<lparr>showTimer := Some (timer_stop t)\<rparr>)
      | None \<Rightarrow> w)"

definition set_running_false :: "world \<Rightarrow> world" where
  "set_running_false w = emit RunningFalse (w\<lparr>running := False\<rparr>)"

definition client_stop :: "client \<Rightarrow> client" where
  "client_stop c =
     (case requestTimer c of
        Some t \<Rightarrow> c\<lparr>requestTimer := Some (timer_stop t)\<rparr>
      | None \<Rightarrow> c)"

definition stop_clients :: "world \<Rightarrow> world" where
  "stop_clients w =
     w\<lparr>clients := map (\<lambda>(index, c). (index, client_stop c)) (clients w),
       trace := trace w @ map (\<lambda>(index, c). ClientStop index) (clients w)\<rparr>"

definition deliver_results :: "world \<Rightarrow> world" where
  "deliver_results w =
     (if resultCallback w then emit (FinalCallback (getResults (latency w))) w else w)"

definition stop :: "world \<Rightarrow> world" where
  "stop w = deliver_results (stop_clients (set_running_false (stop_showTimer w)))"

text \<open>\<^verbatim>\<open>HttpClient.makeRequest\<close>, lines 129 to 147, for the client at \<open>index\<close>. The latency
  record is started first; if the transport then throws, the call is left with the exception
  and no request is in flight. Every call of \<^verbatim>\<open>makeRequest\<close> in the source is the last
  statement of its caller, up to the loop of \<^verbatim>\<open>startClients\<close>, which looks at \<open>abrupt\<close>.\<close>

definition makeRequest :: "nat \<Rightarrow> world \<Rightarrow> world" where
  "makeRequest index w =
     (if \<not> running w then w
      else (case map_of (clients w) index of
              None \<Rightarrow> w
            | Some c \<Rightarrow>
                (let (ident, l) = latency_start (latency w)
                 in (case transport_throws c of
                       Some e \<Rightarrow> w\<lparr>latency := l, abrupt := Some e\<rparr>
                     | None \<Rightarrow>
                         emit (Request index ident (message c))
                           (w\<lparr>latency := l, inflight := inflight w @ [(ident, index)]\<rparr>)))))"

text \<open>\<^verbatim>\<open>HttpClient.start\<close>, lines 105 to 113.\<close>

definition client_start :: "nat \<Rightarrow> world \<Rightarrow> world" where
  "client_start index w =
     (if \<not> truthy_num (requestsPerSecond (opts w)) then makeRequest index w
      else (case (map_of (clients w) index, requestsPerSecond (opts w)) of
              (Some c, Val r) \<Rightarrow>
                w\<lparr>clients :=
                    AList.update index
                      (c\<lparr>requestTimer := Some (HighResolutionTimer (1000 / r))\<rparr>) (clients w)\<rparr>
            | _ \<Rightarrow> w))"

text \<open>\<^verbatim>\<open>Operation.callback\<close>, lines 296 to 314; \<open>next\<close> is the client whose \<^verbatim>\<open>makeRequest\<close> was
  passed, if one was.\<close>

definition reaches :: "nat \<Rightarrow> nat jsfield \<Rightarrow> bool" where
  "reaches n f = (case f of Val m \<Rightarrow> n = m | _ \<Rightarrow> False)"

definition count_request :: "world \<Rightarrow> world" where
  "count_request w = w\<lparr>requests := requests w + 1\<rparr>"

definition check_maxRequests :: "world \<Rightarrow> world" where
  "check_maxRequests w =
     (if truthy_num (maxRequests (opts w))
      then (if reaches (requests w) (maxRequests (opts w)) then stop w else w)
      else w)"

definition call_next :: "nat option \<Rightarrow> world \<Rightarrow> world" where
  "call_next next w =
     (case next of
        Some index \<Rightarrow> (if running w then makeRequest index w else w)
      | None \<Rightarrow> w)"

definition callback :: "jsvalue \<Rightarrow> jsvalue \<Rightarrow> nat option \<Rightarrow> world \<Rightarrow> world" where
  "callback error result next w = call_next next (check_maxRequests (count_request w))"

text \<open>The function that \<^verbatim>\<open>getRequestFinisher(id)\<close> returns, lines 152 to 181.\<close>

definition finisher_errorCode :: "jsvalue \<Rightarrow> jsvalue \<Rightarrow> jsvalue" where
  "finisher_errorCode error result =
     (if truthy error then (if truthy result then result else JString ''-1'') else JNull)"

definition finisher_callback :: "options \<Rightarrow> nat \<Rightarrow> nat option" where
  "finisher_callback params index =
     (if \<not> truthy_num (requestsPerSecond params) then Some index else None)"

definition requestFinished :: "nat \<Rightarrow> nat \<Rightarrow> jsvalue \<Rightarrow> jsvalue \<Rightarrow> world \<Rightarrow> world" where
  "requestFinished index ident error result w =
     (let errorCode = finisher_errorCode error result;
          w1 = emit (LatencyEnd ident errorCode)
                 (w\<lparr>latency := latency_end ident errorCode (latency w)\<rparr>)
      in callback error result (finisher_callback (opts w1) index) w1)"

text \<open>The three handlers that finish a request: \<^verbatim>\<open>request.on('error')\<close> in \<^verbatim>\<open>makeRequest\<close>, and
  \<^verbatim>\<open>connection.on('error')\<close> and \<^verbatim>\<open>connection.on('end')\<close> in \<^verbatim>\<open>getConnect\<close>.\<close>

definition on_request_error :: "nat \<Rightarrow> nat \<Rightarrow> string \<Rightarrow> world \<Rightarrow> world" where
  "on_request_error index ident msg w =
     requestFinished index ident (JString (''Connection error: '' @ msg)) Undefined w"

definition on_connection_error :: "nat \<Rightarrow> nat \<Rightarrow> string \<Rightarrow> world \<Rightarrow> world" where
  "on_connection_error index ident err w =
     requestFinished index ident
       (JString (''Connection '' @ decimal ident @ '' failed: '' @ err)) (JString ''1'') w"

definition on_end :: "nat \<Rightarrow> nat \<Rightarrow> nat \<Rightarrow> world \<Rightarrow> world" where
  "on_end index ident statusCode w =
     (if statusCode \<ge> 300
      then requestFinished index ident
             (JString (''Status code '' @ decimal statusCode)) (JNumber statusCode) w
      else requestFinished index ident JNull (JBool False) w)"

text \<open>\<^verbatim>\<open>startClients\<close>, lines 319 to 341. The loop runs while \<^verbatim>\<open>index < options.concurrency\<close>;
  \<open>startClients_loop k index\<close> is the loop with \<open>k\<close> iterations left. Reading the undeclared
  identifier \<^verbatim>\<open>indexParam\<close> raises a \<^verbatim>\<open>ReferenceError\<close> (the arguments of \<^verbatim>\<open>replaceAll\<close> are
  evaluated before the call). \<open>construct\<close> is \<^verbatim>\<open>new constructor(self, options)\<close> with the
  assignment to \<^verbatim>\<open>clients[index]\<close>, which an exception of the constructor skips; \<open>launch\<close> is
  the \<^verbatim>\<open>if\<close> that starts the client or schedules its start. An exception leaves the loop with
  the state as it is.\<close>

definition loop_bound :: "nat jsfield \<Rightarrow> nat" where
  "loop_bound f = (case f of Val n \<Rightarrow> n | _ \<Rightarrow> 0)"

definition construct :: "nat \<Rightarrow> world \<Rightarrow> exn \<times> world + world" where
  "construct index w =
     (case new_client (ctor w) (opts w) of
        (logs, Inl e) \<Rightarrow> Inl (e, w\<lparr>trace := trace w @ logs\<rparr>)
      | (logs, Inr c) \<Rightarrow>
          Inr (w\<lparr>clients := AList.update index c (clients w), trace := trace w @ logs\<rparr>))"

definition launch :: "nat \<Rightarrow> world \<Rightarrow> world" where
  "launch index w =
     (if \<not> truthy_num (requestsPerSecond (opts w)) then client_start index w
      else w\<lparr>startTimeouts := startTimeouts w @ [index]\<rparr>)"

fun startClients_loop :: "nat \<Rightarrow> nat \<Rightarrow> world \<Rightarrow> exn \<times> world + world" where
  "startClients_loop 0 index w = Inr w"
| "startClients_loop (Suc k) index w =
     (if truthy_str (indexParam (opts w)) then Inl (ReferenceError ''indexParam'', w)
      else (case construct index w of
              Inl ew \<Rightarrow> Inl ew
            | Inr w1 \<Rightarrow>
                (case abrupt (launch index w1) of
                   Some e \<Rightarrow> Inl (e, (launch index w1)\<lparr>abrupt := None\<rparr>)
                 | None \<Rightarrow> startClients_loop k (Suc index) (launch index w1))))"

definition startClients :: "world \<Rightarrow> exn \<times> world + world" where
  "startClients w = startClients_loop (loop_bound (concurrency (opts w))) 0 w"

text \<open>\<^verbatim>\<open>new Operation(options, constructor, callback)\<close> and \<^verbatim>\<open>Operation.start\<close>, lines 267 to
  291. The constructor sets \<^verbatim>\<open>latency\<close> to \<^verbatim>\<open>null\<close>; the first statement of \<^verbatim>\<open>start\<close>
  replaces it before anything reads it, so the field holds a tracker from the beginning.\<close>

definition Operation :: "options \<Rightarrow> client_kind \<Rightarrow> bool \<Rightarrow> world" where
  "Operation options k cb =
     \<lparr>opts = options, ctor = k, resultCallback = cb, running = True, latency = Latency,
      clients = [], requests = 0, showTimer = None, stopTimeout = None,
      startTimeouts = [], inflight = [], settled = [], abrupt = None, trace = []\<rparr>"

definition schedule_stop :: "world \<Rightarrow> world" where
  "schedule_stop w =
     (if truthy_num (maxSeconds (opts w))
      then (case maxSeconds (opts w) of
              Val s \<Rightarrow> w\<lparr>stopTimeout := Some (s * 1000)\<rparr>
            | _ \<Rightarrow> w)
      else w)"

definition start_showTimer :: "world \<Rightarrow> world" where
  "start_showTimer w = w\<lparr>showTimer := Some (HighResolutionTimer SHOW_INTERVAL_MS)\<rparr>"

definition operation_start :: "world \<Rightarrow> exn \<times> world + world" where
  "operation_start w =
     (case startClients (w\<lparr>latency := Latency\<rparr>) of
        Inl e \<Rightarrow> Inl e
      | Inr w1 \<Rightarrow> Inr (start_showTimer (schedule_stop w1)))"

text \<open>\<^verbatim>\<open>exports.loadTest\<close>, lines 231 to 262. The run either is refused (with what was
  reported), or raises out of \<^verbatim>\<open>operation.start()\<close>, or is started. \<open>prepare\<close> is the two
  assignments to the options object; \<open>first_world\<close> is the state when \<^verbatim>\<open>operation.start()\<close>
  is called: the new Operation, and the log level raised before it if \<^verbatim>\<open>debug\<close> is set.\<close>

datatype outcome = Refused "action list" | Raised exn world | Started world

definition client_constructor :: "string \<Rightarrow> client_kind option" where
  "client_constructor u =
     (if startsWith u ''ws://'' then Some WebSocketKind
      else if startsWith u ''http'' then Some HttpKind
      else None)"

definition prepare :: "options \<Rightarrow> bool \<Rightarrow> options" where
  "prepare options cb =
     (let o1 = options\<lparr>concurrency :=
                 (if truthy_num (concurrency options) then concurrency options else Val 1)\<rparr>
      in (if cb then o1\<lparr>quiet := Val True\<rparr> else o1))"

definition first_world :: "options \<Rightarrow> client_kind \<Rightarrow> bool \<Rightarrow> world" where
  "first_world options k cb =
     (if truthy_bool (debug options)
      then emit SetLogLevelDebug (Operation (prepare options cb) k cb)
      else Operation (prepare options cb) k cb)"

definition loadTest :: "options \<Rightarrow> bool \<Rightarrow> outcome" where
  "loadTest options cb =
     (if \<not> truthy_str (url options) then Refused [LogError ''Missing URL in options'']
      else (case url options of
              Val u \<Rightarrow>
                (case client_constructor u of
                   None \<Rightarrow> Refused [ShowHelp]
                 | Some k \<Rightarrow>
                     (case operation_start (first_world options k cb) of
                        Inl (e, w) \<Rightarrow> Raised e w
                      | Inr w \<Rightarrow> Started w))
            | _ \<Rightarrow> Refused [LogError ''Missing URL in options'']))"

text \<open>
  One delivery of the event loop. Each request handed to the transport has three handlers
  (\<^verbatim>\<open>request.on('error')\<close>, \<^verbatim>\<open>connection.on('error')\<close>, \<^verbatim>\<open>connection.on('end')\<close>), all ending
  in the one function of \<^verbatim>\<open>getRequestFinisher\<close>, and nothing in the source keeps a second of
  them from running: an event for a request runs its handler whether the request is still
  in flight or settled already. \<open>settle\<close> moves the request from \<open>inflight\<close> to \<open>settled\<close>. A
  timeout fires once; a timer fires while it is active. An event for which nothing is
  registered leaves the state as it is. An exception that leaves a callback is reported
  (\<open>uncaught\<close>); a process that ends there is a run that stops there, so the deliveries go on.
  \<open>run\<close> delivers a list of events in order.
\<close>

datatype event =
    RequestError nat string
  | ConnectionError nat string
  | ResponseEnd nat nat
  | StopTimeout
  | StartTimeout nat
  | RequestTick nat
  | ShowTick

definition registered :: "world \<Rightarrow> (nat \<times> nat) list" where
  "registered w = inflight w @ settled w"

definition settle :: "nat \<Rightarrow> world \<Rightarrow> world" where
  "settle ident w =
     w\<lparr>inflight := AList.delete ident (inflight w),
       settled := settled w @ filter (\<lambda>p. fst p = ident) (inflight w)\<rparr>"

definition uncaught :: "world \<Rightarrow> world" where
  "uncaught w =
     (case abrupt w of
        Some e \<Rightarrow> emit (Uncaught e) (w\<lparr>abrupt := None\<rparr>)
      | None \<Rightarrow> w)"

definition timer_active :: "timer option \<Rightarrow> bool" where
  "timer_active t = (case t of Some x \<Rightarrow> active x | None \<Rightarrow> False)"

fun step :: "event \<Rightarrow> world \<Rightarrow> world" where
  "step (RequestError ident msg) w =
     (case map_of (registered w) ident of
        Some index \<Rightarrow> uncaught (on_request_error index ident msg (settle ident w))
      | None \<Rightarrow> w)"
| "step (ConnectionError ident err) w =
     (case map_of (registered w) ident of
        Some index \<Rightarrow> uncaught (on_connection_error index ident err (settle ident w))
      | None \<Rightarrow> w)"
| "step (ResponseEnd ident statusCode) w =
     (case map_of (registered w) ident of
        Some index \<Rightarrow> uncaught (on_end index ident statusCode (settle ident w))
      | None \<Rightarrow> w)"
| "step StopTimeout w =
     (case stopTimeout w of
        Some d \<Rightarrow> stop (w\<lparr>stopTimeout := None\<rparr>)
      | None \<Rightarrow> w)"
| "step (StartTimeout index) w =
     (if index \<in> set (startTimeouts w)
      then uncaught (client_start index (w\<lparr>startTimeouts := remove1 index (startTimeouts w)\<rparr>))
      else w)"
| "step (RequestTick index) w =
     (case map_of (clients w) index of
        Some c \<Rightarrow> (if timer_active (requestTimer c) then uncaught (makeRequest index w) else w)
      | None \<Rightarrow> w)"
| "step ShowTick w =
     (if timer_active (showTimer w) then emit ShowPartial w else w)"

fun run :: "event list \<Rightarrow> world \<Rightarrow> world" where
  "run [] w = w"
| "run (e # es) w = run es (step e w)"

subsection \<open>Observations, invariants and example runs\<close>

text \<open>What is observed of a state: the requests handed to the transport, the calls of
  \<^verbatim>\<open>latency.end\<close>, the deliveries of the final statistics, and the requests of one client
  that are in flight.\<close>

definition dispatched :: "world \<Rightarrow> action list" where
  "dispatched w = filter (\<lambda>a. case a of Request i ident m \<Rightarrow> True | _ \<Rightarrow> False) (trace w)"

definition ended :: "world \<Rightarrow> (nat \<times> jsvalue) list" where
  "ended w =
     concat (map (\<lambda>a. case a of LatencyEnd ident c \<Rightarrow> [(ident, c)] | _ \<Rightarrow> []) (trace w))"

definition final_deliveries :: "world \<Rightarrow> nat" where
  "final_deliveries w =
     length (filter (\<lambda>a. case a of FinalCallback r \<Rightarrow> True | _ \<Rightarrow> False) (trace w))"


text \<open>The actions of one call of \<^verbatim>\<open>stop\<close>, and the order of two actions in a list: \<open>a\<close>
  occurs before the first \<open>b\<close>.\<close>

definition stop_actions :: "world \<Rightarrow> action list" where
  "stop_actions w = drop (length (trace w)) (trace (stop w))"

definition precedes :: "action \<Rightarrow> action \<Rightarrow> action list \<Rightarrow> bool" where
  "precedes a b xs = (a \<in> set (takeWhile (\<lambda>x. x \<noteq> b) xs))"

text \<open>The request that an event finishes, if it is one of the three finishing events.\<close>

fun completes :: "event \<Rightarrow> nat option" where
  "completes (RequestError ident msg) = Some ident"
| "completes (ConnectionError ident err) = Some ident"
| "completes (ResponseEnd ident statusCode) = Some ident"
| "completes StopTimeout = None"
| "completes (StartTimeout index) = None"
| "completes (RequestTick index) = None"
| "completes ShowTick = None"


text \<open>The number of clients that a call of \<^verbatim>\<open>loadTest\<close> has constructed.\<close>

definition clients_created :: "outcome \<Rightarrow> nat" where
  "clients_created out =
     (case out of Refused as \<Rightarrow> 0 | Raised e w \<Rightarrow> length (clients w)
      | Started w \<Rightarrow> length (clients w))"


text \<open>The invariant of a run without a request rate: no client has a request timer, no start
  is pending, no two requests in flight belong to the same client, and the client of every
  request in flight exists and can hand a request to its transport.\<close>

definition timers_unset :: "world \<Rightarrow> bool" where
  "timers_unset w = list_all (\<lambda>p. requestTimer (snd p) = None) (clients w)"

definition can_request :: "nat \<Rightarrow> world \<Rightarrow> bool" where
  "can_request index w =
     (case map_of (clients w) index of
        Some c \<Rightarrow> transport_throws c = None
      | None \<Rightarrow> False)"


text \<open>Example options, and the state in which \<^verbatim>\<open>loadTest\<close> leaves an Operation of \<open>n\<close>
  clients when \<^verbatim>\<open>startClients\<close> has run through.\<close>

definition empty_options :: options where
  "empty_options =
     \<lparr>url = Absent, concurrency = Absent, maxRequests = Absent, maxSeconds = Absent,
      cookies = Absent, meth = Absent, body = Absent, contentType = Absent,
      requestsPerSecond = Absent, noAgent = Absent, agentKeepAlive = Absent,
      indexParam = Absent, debug = Absent, quiet = Absent\<rparr>"

definition racing_options :: options where
  "racing_options =
     empty_options\<lparr>url := Val ''http://localhost/'', maxRequests := Val 1, maxSeconds := Val 1\<rparr>"

definition counting_options :: options where
  "counting_options = empty_options\<lparr>url := Val ''http://localhost/'', maxRequests := Val 2\<rparr>"


definition paced_options :: options where
  "paced_options = empty_options\<lparr>url := Val ''http://localhost/'', requestsPerSecond := Val 10\<rparr>"

definition index_options :: options where
  "index_options =
     empty_options\<lparr>url := Val ''http://localhost/?id=N'', indexParam := Val ''N''\<rparr>"

definition numeric_body_options :: options where
  "numeric_body_options =
     empty_options\<lparr>url := Val ''http://localhost/'', body := Val (BodyNumber 5)\<rparr>"

definition https_options :: options where
  "https_options = empty_options\<lparr>url := Val ''https://localhost/''\<rparr>"

definition started_world :: "options \<Rightarrow> client_kind \<Rightarrow> bool \<Rightarrow> nat \<Rightarrow> world" where
  "started_world options k cb n =
     (case startClients_loop n 0 ((first_world options k cb)\<lparr>latency := Latency\<rparr>) of
        Inr w \<Rightarrow> start_showTimer (schedule_stop w)
      | Inl ew \<Rightarrow> snd ew)"

section \<open>Properties of the functions\<close>

lemma emit_fields:
  "opts (emit a w) = opts w" "running (emit a w) = running w" "requests (emit a w) = requests w"
  "latency (emit a w) = latency w" "clients (emit a w) = clients w" "inflight (emit a w) = inflight w"
  "startTimeouts (emit a w) = startTimeouts w" "stopTimeout (emit a w) = stopTimeout w"
  "showTimer (emit a w) = showTimer w" "resultCallback (emit a w) = resultCallback w"
  "ctor (emit a w) = ctor w" "trace (emit a w) = trace w @ [a]"
  "settled (emit a w) = settled w" "abrupt (emit a w) = abrupt w"
  by (simp_all add: emit_def)

lemma stop_fields:
  "opts (stop w) = opts w" "running (stop w) = False" "requests (stop w) = requests w"
  "latency (stop w) = latency w" "inflight (stop w) = inflight w"
  "startTimeouts (stop w) = startTimeouts w" "stopTimeout (stop w) = stopTimeout w"
  "resultCallback (stop w) = resultCallback w" "ctor (stop w) = ctor w"
  "settled (stop w) = settled w" "abrupt (stop w) = abrupt w"
  "clients (stop w) = map (\<lambda>(index, c). (index, client_stop c)) (clients w)"
  by (simp_all add: stop_def deliver_results_def stop_clients_def set_running_false_def
      stop_showTimer_def emit_fields split: option.splits)

lemma stop_trace:
  "trace (stop w) =
     trace w @ (case showTimer w of Some t \<Rightarrow> [ShowTimerStop] | None \<Rightarrow> []) @ [RunningFalse]
       @ map (\<lambda>p. ClientStop (fst p)) (clients w)
       @ (if resultCallback w then [FinalCallback (getResults (latency w))] else [])"
  by (simp add: stop_def deliver_results_def stop_clients_def set_running_false_def
      stop_showTimer_def emit_fields case_prod_unfold split: option.splits)

lemma makeRequest_fields:
  "opts (makeRequest i w) = opts w" "running (makeRequest i w) = running w"
  "requests (makeRequest i w) = requests w" "clients (makeRequest i w) = clients w"
  "startTimeouts (makeRequest i w) = startTimeouts w" "stopTimeout (makeRequest i w) = stopTimeout w"
  "showTimer (makeRequest i w) = showTimer w" "resultCallback (makeRequest i w) = resultCallback w"
  "ctor (makeRequest i w) = ctor w" "settled (makeRequest i w) = settled w"
  by (simp_all add: makeRequest_def emit_fields Let_def latency_start_def split: option.splits)

lemma makeRequest_stopped: "\<not> running w \<Longrightarrow> makeRequest i w = w"
  by (simp add: makeRequest_def)

lemma client_start_fields:
  "opts (client_start i w) = opts w" "running (client_start i w) = running w"
  "requests (client_start i w) = requests w"
  "startTimeouts (client_start i w) = startTimeouts w" "stopTimeout (client_start i w) = stopTimeout w"
  "showTimer (client_start i w) = showTimer w" "resultCallback (client_start i w) = resultCallback w"
  "ctor (client_start i w) = ctor w" "settled (client_start i w) = settled w"
  by (simp_all add: client_start_def makeRequest_fields split: option.splits jsfield.splits)

lemma callback_fields:
  "opts (callback e r n w) = opts w" "requests (callback e r n w) = requests w + 1"
  "startTimeouts (callback e r n w) = startTimeouts w" "stopTimeout (callback e r n w) = stopTimeout w"
  "resultCallback (callback e r n w) = resultCallback w" "ctor (callback e r n w) = ctor w"
  "settled (callback e r n w) = settled w"
  by (simp_all add: callback_def call_next_def check_maxRequests_def count_request_def
      makeRequest_fields stop_fields split: option.splits)

lemma callback_running:
  "running (callback e r n w) =
     (running w \<and> \<not> (truthy_num (maxRequests (opts w)) \<and> reaches (requests w + 1) (maxRequests (opts w))))"
  by (simp add: callback_def call_next_def check_maxRequests_def count_request_def
      makeRequest_fields stop_fields split: option.splits)

lemma requestFinished_fields:
  "opts (requestFinished i k e r w) = opts w" "requests (requestFinished i k e r w) = requests w + 1"
  "startTimeouts (requestFinished i k e r w) = startTimeouts w"
  "stopTimeout (requestFinished i k e r w) = stopTimeout w"
  "resultCallback (requestFinished i k e r w) = resultCallback w"
  "ctor (requestFinished i k e r w) = ctor w"
  "settled (requestFinished i k e r w) = settled w"
  by (simp_all add: requestFinished_def Let_def callback_fields emit_fields)

lemma requestFinished_running:
  "running (requestFinished i k e r w) =
     (running w \<and> \<not> (truthy_num (maxRequests (opts w)) \<and> reaches (requests w + 1) (maxRequests (opts w))))"
  by (simp add: requestFinished_def Let_def callback_running emit_fields)

lemma on_handlers_running:
  "running (on_request_error i k m w) =
     (running w \<and> \<not> (truthy_num (maxRequests (opts w)) \<and> reaches (requests w + 1) (maxRequests (opts w))))"
  "running (on_connection_error i k m w) =
     (running w \<and> \<not> (truthy_num (maxRequests (opts w)) \<and> reaches (requests w + 1) (maxRequests (opts w))))"
  "running (on_end i k s w) =
     (running w \<and> \<not> (truthy_num (maxRequests (opts w)) \<and> reaches (requests w + 1) (maxRequests (opts w))))"
  by (simp_all add: on_request_error_def on_connection_error_def on_end_def requestFinished_running)

lemma on_handlers_requests:
  "requests (on_request_error i k m w) = requests w + 1"
  "requests (on_connection_error i k m w) = requests w + 1"
  "requests (on_end i k s w) = requests w + 1"
  by (simp_all add: on_request_error_def on_connection_error_def on_end_def requestFinished_fields)

lemma on_handlers_opts:
  "opts (on_request_error i k m w) = opts w"
  "opts (on_connection_error i k m w) = opts w"
  "opts (on_end i k s w) = opts w"
  by (simp_all add: on_request_error_def on_connection_error_def on_end_def requestFinished_fields)

lemma settle_fields:
  "opts (settle k w) = opts w" "running (settle k w) = running w" "requests (settle k w) = requests w"
  "latency (settle k w) = latency w" "clients (settle k w) = clients w" 
  "startTimeouts (settle k w) = startTimeouts w" "stopTimeout (settle k w) = stopTimeout w"
  "showTimer (settle k w) = showTimer w" "resultCallback (settle k w) = resultCallback w"
  "ctor (settle k w) = ctor w" "trace (settle k w) = trace w" "abrupt (settle k w) = abrupt w"
  "inflight (settle k w) = AList.delete k (inflight w)"
  "settled (settle k w) = settled w @ filter (\<lambda>p. fst p = k) (inflight w)"
  by (simp_all add: settle_def)

lemma uncaught_fields:
  "opts (uncaught w) = opts w" "running (uncaught w) = running w"
  "requests (uncaught w) = requests w" "latency (uncaught w) = latency w"
  "clients (uncaught w) = clients w" "inflight (uncaught w) = inflight w"
  "startTimeouts (uncaught w) = startTimeouts w" "stopTimeout (uncaught w) = stopTimeout w"
  "showTimer (uncaught w) = showTimer w" "resultCallback (uncaught w) = resultCallback w"
  "ctor (uncaught w) = ctor w" "settled (uncaught w) = settled w" "abrupt (uncaught w) = None"
  by (simp_all add: uncaught_def emit_fields split: option.splits)

lemma uncaught_trace:
  "trace (uncaught w) = trace w @ (case abrupt w of Some e \<Rightarrow> [Uncaught e] | None \<Rightarrow> [])"
  by (simp add: uncaught_def emit_fields split: option.splits)

lemma on_handlers_settled:
  "settled (on_request_error i k m w) = settled w"
  "settled (on_connection_error i k m w) = settled w"
  "settled (on_end i k s w) = settled w"
  by (simp_all add: on_request_error_def on_connection_error_def on_end_def requestFinished_fields)

lemma step_opts: "opts (step e w) = opts w"
  by (cases e) (simp_all add: on_handlers_opts settle_fields uncaught_fields stop_fields client_start_fields
      makeRequest_fields emit_fields split: option.splits)

lemma run_opts: "opts (run es w) = opts w"
  by (induction es arbitrary: w) (simp_all add: step_opts)

lemma run_append: "run (es @ fs) w = run fs (run es w)"
  by (induction es arbitrary: w) simp_all

lemma step_stops_at_max:
  assumes "running w" "\<not> running (step e w)" "e \<noteq> StopTimeout"
  shows "reaches (requests (step e w)) (maxRequests (opts w)) \<and> requests (step e w) = requests w + 1"
  using assms
  by (cases e) (auto simp add: on_handlers_running on_handlers_requests settle_fields
      uncaught_fields client_start_fields makeRequest_fields emit_fields split: option.splits if_splits)

lemma step_requests_mono: "requests w \<le> requests (step e w)"
  by (cases e) (simp_all add: on_handlers_requests settle_fields uncaught_fields stop_fields client_start_fields
      makeRequest_fields emit_fields split: option.splits)

lemma dispatched_emit:
  "dispatched (emit a w) = dispatched w @ (case a of Request i k m \<Rightarrow> [a] | _ \<Rightarrow> [])"
  by (cases a) (simp_all add: dispatched_def emit_def)

lemma dispatched_update:
  "dispatched (w\<lparr>latency := l\<rparr>) = dispatched w"
  "dispatched (w\<lparr>requests := n\<rparr>) = dispatched w"
  "dispatched (w\<lparr>inflight := f\<rparr>) = dispatched w"
  "dispatched (w\<lparr>clients := cs\<rparr>) = dispatched w"
  "dispatched (w\<lparr>stopTimeout := t\<rparr>) = dispatched w"
  "dispatched (w\<lparr>startTimeouts := ts\<rparr>) = dispatched w"
  "dispatched (w\<lparr>showTimer := st\<rparr>) = dispatched w"
  "dispatched (w\<lparr>running := b\<rparr>) = dispatched w"
  "dispatched (w\<lparr>settled := ss\<rparr>) = dispatched w"
  "dispatched (w\<lparr>abrupt := x\<rparr>) = dispatched w"
  by (simp_all add: dispatched_def)

lemma stop_dispatched: "dispatched (stop w) = dispatched w"
  by (simp add: dispatched_def stop_trace split: option.splits)

lemma callback_stopped:
  assumes "\<not> running w"
  shows "dispatched (callback e r n w) = dispatched w"
    and "latency (callback e r n w) = latency w"
    and "inflight (callback e r n w) = inflight w"
    and "\<not> running (callback e r n w)"
  using assms
  by (simp_all add: callback_def call_next_def check_maxRequests_def count_request_def
      stop_fields stop_dispatched dispatched_update split: option.splits)

lemma latency_end_nextId: "nextId (latency_end k c l) = nextId l"
  by (simp add: latency_end_def)

lemma requestFinished_stopped:
  assumes "\<not> running w"
  shows "dispatched (requestFinished i k e r w) = dispatched w"
    and "nextId (latency (requestFinished i k e r w)) = nextId (latency w)"
    and "inflight (requestFinished i k e r w) = inflight w"
    and "\<not> running (requestFinished i k e r w)"
  using assms
  by (simp_all add: requestFinished_def Let_def callback_stopped emit_fields dispatched_emit
      dispatched_update latency_end_nextId)

lemma client_start_stopped:
  assumes "\<not> running w"
  shows "dispatched (client_start i w) = dispatched w"
    and "latency (client_start i w) = latency w"
    and "inflight (client_start i w) = inflight w"
  using assms
  by (simp_all add: client_start_def makeRequest_stopped dispatched_update
      split: option.splits jsfield.splits)

lemma finish_stopped:
  assumes "\<not> running w"
  shows "\<not> running (on_request_error i k m w)" "\<not> running (on_connection_error i k m w)"
    "\<not> running (on_end i k s w)"
    "dispatched (on_request_error i k m w) = dispatched w"
    "dispatched (on_connection_error i k m w) = dispatched w"
    "dispatched (on_end i k s w) = dispatched w"
    "nextId (latency (on_request_error i k m w)) = nextId (latency w)"
    "nextId (latency (on_connection_error i k m w)) = nextId (latency w)"
    "nextId (latency (on_end i k s w)) = nextId (latency w)"
    "inflight (on_request_error i k m w) = inflight w"
    "inflight (on_connection_error i k m w) = inflight w"
    "inflight (on_end i k s w) = inflight w"
  using assms
  by (simp_all add: on_request_error_def on_connection_error_def on_end_def
      requestFinished_stopped)

lemma settle_dispatched: "dispatched (settle k w) = dispatched w"
  by (simp add: settle_def dispatched_def)

lemma uncaught_dispatched: "dispatched (uncaught w) = dispatched w"
  by (simp add: dispatched_def uncaught_trace split: option.splits)

lemma step_stopped_running:
  assumes "\<not> running w"
  shows "\<not> running (step e w)"
  using assms
  by (cases e) (simp_all add: finish_stopped settle_fields uncaught_fields stop_fields client_start_fields
      makeRequest_stopped emit_fields split: option.splits)

lemma step_stopped_dispatched:
  assumes "\<not> running w"
  shows "dispatched (step e w) = dispatched w"
  using assms
  by (cases e) (simp_all add: finish_stopped settle_fields uncaught_fields uncaught_dispatched settle_dispatched stop_dispatched
      client_start_stopped makeRequest_stopped dispatched_emit dispatched_update
      split: option.splits)

lemma step_stopped_nextId:
  assumes "\<not> running w"
  shows "nextId (latency (step e w)) = nextId (latency w)"
  using assms
  by (cases e) (simp_all add: finish_stopped settle_fields uncaught_fields stop_fields client_start_stopped
      makeRequest_stopped emit_fields split: option.splits)

lemma set_delete_subset: "set (AList.delete k xs) \<subseteq> set xs"
  by (auto simp add: AList.delete_eq)

lemma step_stopped_inflight:
  assumes "\<not> running w"
  shows "set (inflight (step e w)) \<subseteq> set (inflight w)"
  using assms
  by (cases e) (simp_all add: finish_stopped settle_fields uncaught_fields stop_fields client_start_stopped
      makeRequest_stopped emit_fields set_delete_subset split: option.splits)

lemma run_stopped:
  assumes "\<not> running w"
  shows "\<not> running (run es w) \<and> dispatched (run es w) = dispatched w
         \<and> nextId (latency (run es w)) = nextId (latency w)
         \<and> set (inflight (run es w)) \<subseteq> set (inflight w)"
  using assms
proof (induction es arbitrary: w)
  case Nil
  then show ?case by simp
next
  case (Cons e es)
  have s: "\<not> running (step e w)" using Cons.prems by (rule step_stopped_running)
  from Cons.IH [OF s] step_stopped_dispatched [OF Cons.prems, of e]
    step_stopped_nextId [OF Cons.prems, of e] step_stopped_inflight [OF Cons.prems, of e]
  show ?case by auto
qed






lemma map_of_append_present:
  "map_of xs k = Some i \<Longrightarrow> map_of (xs @ ys) k = Some i"
  by (simp add: map_add_def)

lemma makeRequest_inflight:
  "inflight (makeRequest i w) = inflight w
   \<or> (running w \<and> map_of (clients w) i \<noteq> None
      \<and> inflight (makeRequest i w) = inflight w @ [(nextId (latency w), i)])"
  by (simp add: makeRequest_def emit_fields latency_start_def split: option.splits)


lemma client_stop_unset: "requestTimer c = None \<Longrightarrow> client_stop c = c"
  by (simp add: client_stop_def)

lemma stop_timers_unset: "timers_unset w \<Longrightarrow> clients (stop w) = clients w"
proof -
  assume "timers_unset w"
  then have "\<forall>p \<in> set (clients w). (\<lambda>(index, c). (index, client_stop c)) p = p"
    by (auto simp add: timers_unset_def list_all_iff client_stop_unset)
  then have "map (\<lambda>(index, c). (index, client_stop c)) (clients w) = clients w"
    by (simp add: map_idI)
  then show ?thesis by (simp add: stop_fields)
qed

lemma callback_clients_unset:
  "timers_unset w \<Longrightarrow> clients (callback e r n w) = clients w"
proof -
  assume a: "timers_unset w"
  have "timers_unset (count_request w)" using a by (simp add: timers_unset_def count_request_def)
  then have "clients (check_maxRequests (count_request w)) = clients w"
    using stop_timers_unset [of "count_request w"]
    by (simp add: check_maxRequests_def count_request_def)
  then show ?thesis
    by (simp add: callback_def call_next_def makeRequest_fields split: option.splits)
qed

lemma requestFinished_clients_unset:
  "timers_unset w \<Longrightarrow> clients (requestFinished i k e r w) = clients w"
proof -
  assume a: "timers_unset w"
  let ?w = "emit (LatencyEnd k (finisher_errorCode e r))
              (w\<lparr>latency := latency_end k (finisher_errorCode e r) (latency w)\<rparr>)"
  have "timers_unset ?w" using a by (simp add: timers_unset_def emit_fields)
  from callback_clients_unset [OF this]
  show ?thesis by (simp add: requestFinished_def Let_def emit_fields)
qed


text \<open>Every finishing event runs the one function of \<^verbatim>\<open>getRequestFinisher\<close>.\<close>

lemma step_completes:
  assumes "completes e = Some k" "map_of (registered w) k = Some i"
  shows "\<exists>err res. step e w = uncaught (requestFinished i k err res (settle k w))"
proof (cases e)
  case (RequestError k0 msg)
  then have "step e w = uncaught (requestFinished i k (JString (''Connection error: '' @ msg))
      Undefined (settle k w))"
    using assms by (simp add: on_request_error_def)
  then show ?thesis by blast
next
  case (ConnectionError k0 err)
  then have "step e w = uncaught (requestFinished i k
      (JString (''Connection '' @ decimal k @ '' failed: '' @ err)) (JString ''1'') (settle k w))"
    using assms by (simp add: on_connection_error_def)
  then show ?thesis by blast
next
  case (ResponseEnd k0 code)
  show ?thesis
  proof (cases "300 \<le> code")
    case True
    then have "step e w = uncaught (requestFinished i k
        (JString (''Status code '' @ decimal code)) (JNumber code) (settle k w))"
      using assms ResponseEnd by (simp add: on_end_def)
    then show ?thesis by blast
  next
    case False
    then have "step e w = uncaught (requestFinished i k JNull (JBool False) (settle k w))"
      using assms ResponseEnd by (simp add: on_end_def)
    then show ?thesis by blast
  qed
qed (use assms in simp_all)

lemma step_idle:
  assumes "completes e = Some k" "map_of (registered w) k = None"
  shows "step e w = w"
  using assms by (cases e) simp_all


lemma registered_inflight:
  "map_of (inflight w) k = Some i \<Longrightarrow> map_of (registered w) k = Some i"
  unfolding registered_def by (rule map_of_append_present)

lemma can_request_clients:
  "clients w' = clients w \<Longrightarrow> can_request i w' = can_request i w"
  by (simp add: can_request_def)









lemma construct_Inr:
  assumes "construct index w = Inr w1"
  shows "\<exists>c. new_client (ctor w) (opts w) = ([], Inr c)
           \<and> w1 = w\<lparr>clients := AList.update index c (clients w)\<rparr>
           \<and> requestTimer c = None"
proof -
  obtain logs r where n: "new_client (ctor w) (opts w) = (logs, r)"
    by (cases "new_client (ctor w) (opts w)")
  from assms n obtain c where r: "r = Inr c"
    by (cases r) (simp_all add: construct_def)
  from n r have l: "logs = []" and t: "requestTimer c = None"
    by (auto simp add: new_client_def init_message_def
        split: jsfield.splits body.splits if_splits prod.splits sum.splits)
  from assms n r l t show ?thesis by (simp add: construct_def)
qed

lemma launch_fields:
  "opts (launch i w) = opts w" "running (launch i w) = running w"
  "requests (launch i w) = requests w" "resultCallback (launch i w) = resultCallback w"
  "ctor (launch i w) = ctor w" "stopTimeout (launch i w) = stopTimeout w"
  "showTimer (launch i w) = showTimer w" "settled (launch i w) = settled w"
  by (simp_all add: launch_def client_start_fields)


lemma startClients_loop_fields:
  "startClients_loop k index w = Inr w' \<Longrightarrow>
   opts w' = opts w \<and> running w' = running w \<and> requests w' = requests w
   \<and> resultCallback w' = resultCallback w \<and> ctor w' = ctor w \<and> stopTimeout w' = stopTimeout w
   \<and> showTimer w' = showTimer w \<and> settled w' = settled w"
proof (induction k arbitrary: index w)
  case 0
  then show ?case by simp
next
  case (Suc k)
  from Suc.prems obtain w1 where c: "construct index w = Inr w1"
    and l: "startClients_loop k (Suc index) (launch index w1) = Inr w'"
    by (auto split: if_splits sum.splits option.splits)
  from construct_Inr [OF c] obtain cl where
    w1: "w1 = w\<lparr>clients := AList.update index cl (clients w)\<rparr>" by blast
  from Suc.IH [OF l] show ?case by (simp add: launch_fields w1)
qed



lemma loadTest_Started:
  assumes "loadTest options cb = Started w0"
  shows "\<exists>u k. url options = Val u \<and> client_constructor u = Some k
           \<and> operation_start (first_world options k cb) = Inr w0"
  using assms unfolding loadTest_def
  by (auto split: if_splits jsfield.splits option.splits sum.splits prod.splits)

lemma first_world_fields:
  "opts (first_world options k cb) = prepare options cb"
  "running (first_world options k cb)" "requests (first_world options k cb) = 0"
  "resultCallback (first_world options k cb) = cb" "ctor (first_world options k cb) = k"
  "clients (first_world options k cb) = []" "inflight (first_world options k cb) = []"
  "startTimeouts (first_world options k cb) = []" "stopTimeout (first_world options k cb) = None"
  "showTimer (first_world options k cb) = None" "latency (first_world options k cb) = Latency"
  "settled (first_world options k cb) = []" "abrupt (first_world options k cb) = None"
  by (simp_all add: first_world_def Operation_def emit_fields)

lemma prepare_fields:
  "url (prepare options cb) = url options" "maxRequests (prepare options cb) = maxRequests options"
  "maxSeconds (prepare options cb) = maxSeconds options"
  "requestsPerSecond (prepare options cb) = requestsPerSecond options"
  "indexParam (prepare options cb) = indexParam options"
  "body (prepare options cb) = body options"
  "concurrency (prepare options cb) =
     (if truthy_num (concurrency options) then concurrency options else Val 1)"
  by (simp_all add: prepare_def Let_def)

lemma loop_bound_prepare: "0 < loop_bound (concurrency (prepare options cb))"
  by (cases "concurrency options")
    (simp_all add: prepare_fields truthy_num_def loop_bound_def)

lemma operation_start_Inr:
  assumes "operation_start w = Inr w0"
  shows "\<exists>w1. startClients_loop (loop_bound (concurrency (opts w))) 0 (w\<lparr>latency := Latency\<rparr>) = Inr w1
           \<and> w0 = start_showTimer (schedule_stop w1)"
  using assms by (auto simp add: operation_start_def startClients_def split: sum.splits)

lemma schedule_fields:
  "opts (start_showTimer (schedule_stop w)) = opts w"
  "running (start_showTimer (schedule_stop w)) = running w"
  "requests (start_showTimer (schedule_stop w)) = requests w"
  "clients (start_showTimer (schedule_stop w)) = clients w"
  "inflight (start_showTimer (schedule_stop w)) = inflight w"
  "startTimeouts (start_showTimer (schedule_stop w)) = startTimeouts w"
  "resultCallback (start_showTimer (schedule_stop w)) = resultCallback w"
  "latency (start_showTimer (schedule_stop w)) = latency w"
  "trace (start_showTimer (schedule_stop w)) = trace w"
  "settled (start_showTimer (schedule_stop w)) = settled w"
  "abrupt (start_showTimer (schedule_stop w)) = abrupt w"
  by (simp_all add: start_showTimer_def schedule_stop_def split: jsfield.splits)

lemma loadTest_Started_fields:
  assumes "loadTest options cb = Started w0"
  shows "opts w0 = prepare options cb" "running w0" "requests w0 = 0" "resultCallback w0 = cb"
    "settled w0 = []"
proof -
  from loadTest_Started [OF assms] obtain u k where
    s: "operation_start (first_world options k cb) = Inr w0" by blast
  from operation_start_Inr [OF s] obtain w1 where
    l: "startClients_loop (loop_bound (concurrency (opts (first_world options k cb)))) 0
          ((first_world options k cb)\<lparr>latency := Latency\<rparr>) = Inr w1"
    and w0: "w0 = start_showTimer (schedule_stop w1)" by blast
  from startClients_loop_fields [OF l]
  show "opts w0 = prepare options cb" "running w0" "requests w0 = 0" "resultCallback w0 = cb"
    "settled w0 = []"
    by (simp_all add: w0 schedule_fields first_world_fields)
qed



lemmas model_defs =
  loadTest_def truthy_str_def truthy_num_def truthy_bool_def truthy_obj_def
  client_constructor_def startsWith_def
  operation_start_def startClients_def loop_bound_def first_world_def Operation_def prepare_def
  construct_def launch_def client_start_def makeRequest_def latency_start_def Latency_def emit_def
  new_client_def init_options_def init_message_def init_headers_def
  protocol_of_def scheme_chars_def toLowerCase_def http_request_throws_def transport_throws_def
  schedule_stop_def start_showTimer_def HighResolutionTimer_def SHOW_INTERVAL_MS_def
  registered_def settle_def uncaught_def
  on_end_def on_request_error_def on_connection_error_def requestFinished_def
  finisher_errorCode_def finisher_callback_def latency_end_def callback_def call_next_def
  check_maxRequests_def count_request_def reaches_def stop_def stop_showTimer_def
  set_running_false_def stop_clients_def deliver_results_def client_stop_def timer_stop_def
  getResults_def timer_active_def

lemma racing_loop:
  "\<exists>w. startClients_loop 1 0 ((first_world racing_options HttpKind True)\<lparr>latency := Latency\<rparr>)
        = Inr w"
  by (simp add: racing_options_def empty_options_def model_defs Let_def)

lemma racing_started:
  "loadTest racing_options True = Started (started_world racing_options HttpKind True 1)"
  by (simp add: racing_options_def empty_options_def started_world_def model_defs Let_def)

lemma racing_twice:
  "final_deliveries
     (run [ResponseEnd 0 200, StopTimeout] (started_world racing_options HttpKind True 1)) = 2"
  by (simp add: racing_options_def empty_options_def started_world_def model_defs Let_def
      final_deliveries_def)

lemma counting_started:
  "loadTest counting_options False = Started (started_world counting_options HttpKind False 1)"
  by (simp add: counting_options_def empty_options_def started_world_def model_defs Let_def)

lemma ended_emit:
  "ended (emit a w) = ended w @ (case a of LatencyEnd k c \<Rightarrow> [(k, c)] | _ \<Rightarrow> [])"
  by (simp add: ended_def emit_def)

lemma ended_update:
  "ended (w\<lparr>latency := l\<rparr>) = ended w"
  "ended (w\<lparr>requests := n\<rparr>) = ended w"
  "ended (w\<lparr>inflight := f\<rparr>) = ended w"
  "ended (w\<lparr>settled := ss\<rparr>) = ended w"
  "ended (w\<lparr>abrupt := x\<rparr>) = ended w"
  by (simp_all add: ended_def)

lemma ended_stop: "ended (stop w) = ended w"
  by (simp add: ended_def stop_trace split: option.splits)

lemma ended_makeRequest: "ended (makeRequest i w) = ended w"
  by (simp add: makeRequest_def ended_emit ended_update latency_start_def split: option.splits)

lemma ended_callback: "ended (callback e r n w) = ended w"
  by (simp add: callback_def call_next_def check_maxRequests_def count_request_def
      ended_makeRequest ended_stop ended_update split: option.splits)

lemma ended_requestFinished:
  "ended (requestFinished i k e r w) = ended w @ [(k, finisher_errorCode e r)]"
  by (simp add: requestFinished_def Let_def ended_callback ended_emit ended_update)

lemma ended_settle: "ended (settle k w) = ended w"
  by (simp add: settle_def ended_def)

lemma ended_uncaught: "ended (uncaught w) = ended w"
  by (cases "abrupt w") (simp_all add: uncaught_def ended_emit ended_update)

lemma ended_finish:
  "ended (on_request_error i k m w) = ended w @ [(k, JString ''-1'')]"
  "ended (on_connection_error i k m w) = ended w @ [(k, JString ''1'')]"
  "300 \<le> s \<Longrightarrow> ended (on_end i k s w) = ended w @ [(k, JNumber s)]"
  "s < 300 \<Longrightarrow> ended (on_end i k s w) = ended w @ [(k, JNull)]"
  by (simp_all add: on_request_error_def on_connection_error_def on_end_def
      ended_requestFinished finisher_errorCode_def)

lemma makeRequest_dispatched:
  "dispatched (makeRequest i w) = dispatched w
   \<or> (\<exists>k m. dispatched (makeRequest i w) = dispatched w @ [Request i k m])"
  by (simp add: makeRequest_def dispatched_emit dispatched_update latency_start_def
      split: option.splits)

lemma callback_dispatched:
  "dispatched (callback e r n w) = dispatched w
   \<or> (\<exists>i k m. n = Some i \<and> dispatched (callback e r n w) = dispatched w @ [Request i k m])"
proof -
  let ?w = "check_maxRequests (count_request w)"
  have f: "dispatched ?w = dispatched w"
    by (simp add: check_maxRequests_def count_request_def stop_dispatched dispatched_update)
  show ?thesis
  proof (cases n)
    case None
    then show ?thesis using f by (simp add: callback_def call_next_def)
  next
    case (Some i)
    then show ?thesis using f makeRequest_dispatched [of i ?w]
      by (auto simp add: callback_def call_next_def)
  qed
qed

lemma requestFinished_dispatched:
  "dispatched (requestFinished i k e r w) = dispatched w
   \<or> (\<exists>k' m. \<not> truthy_num (requestsPerSecond (opts w))
        \<and> dispatched (requestFinished i k e r w) = dispatched w @ [Request i k' m])"
proof -
  let ?w = "emit (LatencyEnd k (finisher_errorCode e r))
              (w\<lparr>latency := latency_end k (finisher_errorCode e r) (latency w)\<rparr>)"
  have f: "dispatched ?w = dispatched w" "opts ?w = opts w"
    by (simp_all add: emit_fields dispatched_emit dispatched_update)
  have r: "requestFinished i k e r w = callback e r (finisher_callback (opts w) i) ?w"
    by (simp add: requestFinished_def Let_def emit_fields)
  from callback_dispatched [of e r "finisher_callback (opts w) i" ?w]
  show ?thesis unfolding r f
    by (auto simp add: finisher_callback_def split: if_splits)
qed

lemma step_paced_dispatched:
  assumes t: "truthy_num (requestsPerSecond (opts w))" and c: "completes e = Some k"
  shows "dispatched (step e w) = dispatched w"
proof (cases "map_of (registered w) k")
  case None
  then show ?thesis using step_idle [OF c] by simp
next
  case (Some i)
  from step_completes [OF c Some] obtain err res where
    s: "step e w = uncaught (requestFinished i k err res (settle k w))" by blast
  have "truthy_num (requestsPerSecond (opts (settle k w)))" using t by (simp add: settle_fields)
  then show ?thesis
    using requestFinished_dispatched [of i k err res "settle k w"]
    unfolding s by (auto simp add: uncaught_dispatched settle_dispatched)
qed

lemma step_completion_counts:
  assumes "completes e = Some k" "map_of (registered w) k = Some i"
  shows "requests (step e w) = requests w + 1"
    and "running (step e w) =
          (running w \<and> \<not> (truthy_num (maxRequests (opts w))
                           \<and> reaches (requests w + 1) (maxRequests (opts w))))"
    and "\<exists>c. ended (step e w) = ended w @ [(k, c)]"
proof -
  from step_completes [OF assms] obtain err res where
    s: "step e w = uncaught (requestFinished i k err res (settle k w))" by blast
  show "requests (step e w) = requests w + 1"
    unfolding s by (simp add: uncaught_fields requestFinished_fields settle_fields)
  show "running (step e w) =
          (running w \<and> \<not> (truthy_num (maxRequests (opts w))
                           \<and> reaches (requests w + 1) (maxRequests (opts w))))"
    unfolding s by (simp add: uncaught_fields requestFinished_running settle_fields)
  show "\<exists>c. ended (step e w) = ended w @ [(k, c)]"
    unfolding s by (simp add: ended_uncaught ended_requestFinished ended_settle)
qed

lemma step_requests:
  "requests (step e w) = requests w
   \<or> (requests (step e w) = requests w + 1
       \<and> running (step e w) =
          (running w \<and> \<not> (truthy_num (maxRequests (opts w))
                           \<and> reaches (requests w + 1) (maxRequests (opts w)))))"
  by (cases e) (simp_all add: on_handlers_requests on_handlers_running settle_fields
      uncaught_fields stop_fields client_start_fields makeRequest_fields emit_fields
      split: option.splits)

lemma step_below_max:
  assumes "maxRequests (opts w) = Val N" "0 < N" "running w \<longrightarrow> requests w < N"
  shows "running (step e w) \<longrightarrow> requests (step e w) < N"
proof
  assume r: "running (step e w)"
  then have "running w" using step_stopped_running [of w e] by blast
  then have "requests w < N" using assms(3) by simp
  then show "requests (step e w) < N"
    using step_requests [of e w] r assms(1,2)
    by (auto simp add: truthy_num_def reaches_def)
qed

lemma run_below_max:
  "maxRequests (opts w) = Val N \<Longrightarrow> 0 < N \<Longrightarrow> running w \<longrightarrow> requests w < N \<Longrightarrow>
   running (run es w) \<longrightarrow> requests (run es w) < N"
proof (induction es arbitrary: w)
  case Nil
  then show ?case by simp
next
  case (Cons e es)
  have "maxRequests (opts (step e w)) = Val N" using Cons.prems(1) by (simp add: step_opts)
  from Cons.IH [OF this Cons.prems(2) step_below_max [OF Cons.prems]]
  show ?case by simp
qed

section \<open>The claims\<close>

text \<open>
  Claim C1 says that the final statistics callback is invoked exactly once in every run in which
  both stop triggers fire. The code does otherwise: \<^verbatim>\<open>stop\<close> has no guard and does not clear the
  \<^verbatim>\<open>maxSeconds\<close> timeout. With \<^verbatim>\<open>maxRequests = 1\<close>, \<^verbatim>\<open>maxSeconds = 1\<close> and a callback, the
  response to the only request makes \<^verbatim>\<open>Operation.callback\<close> call \<^verbatim>\<open>stop\<close>, which delivers the
  final statistics; the timeout then calls \<^verbatim>\<open>stop\<close> again, and the statistics are delivered a
  second time.
\<close>
theorem final_callback_delivered_twice:
  "loadTest racing_options True = Started (started_world racing_options HttpKind True 1)
   \<and> final_deliveries (run [ResponseEnd 0 200] (started_world racing_options HttpKind True 1)) = 1
   \<and> final_deliveries
        (run [ResponseEnd 0 200, StopTimeout] (started_world racing_options HttpKind True 1)) = 2"
proof -
  have "final_deliveries (run [ResponseEnd 0 200] (started_world racing_options HttpKind True 1)) = 1"
    by (simp add: racing_options_def empty_options_def started_world_def model_defs Let_def
      final_deliveries_def)
  then show ?thesis using racing_started racing_twice by simp
qed

text \<open>
  Claim C2. In a run that \<^verbatim>\<open>loadTest\<close> started with \<^verbatim>\<open>maxRequests = N\<close>, the counter of completed
  requests stays below \<open>N\<close> as long as the Operation is running, and a delivery of the event
  loop other than the \<^verbatim>\<open>maxSeconds\<close> timeout that takes the Operation from running to stopped
  leaves the counter at exactly \<open>N\<close>: at the moment \<^verbatim>\<open>stop\<close> is triggered by the counter, the
  counter is \<open>N\<close>, not more and not less.
\<close>

theorem completed_counter_at_stop:
  assumes "loadTest options cb = Started w0" and "maxRequests options = Val N"
  shows "(0 < N \<and> running (run es w0) \<longrightarrow> requests (run es w0) < N)
       \<and> (running (run es w0) \<and> \<not> running (step e (run es w0)) \<and> e \<noteq> StopTimeout
            \<longrightarrow> requests (step e (run es w0)) = N)"
proof -
  have o: "maxRequests (opts w0) = Val N"
    using loadTest_Started_fields(1) [OF assms(1)] assms(2) by (simp add: prepare_fields)
  have o': "maxRequests (opts (run es w0)) = Val N" using o by (simp add: run_opts)
  have z: "requests w0 = 0" by (rule loadTest_Started_fields(3) [OF assms(1)])
  have a: "0 < N \<and> running (run es w0) \<longrightarrow> requests (run es w0) < N"
    using run_below_max [OF o, of es] z by simp
  have b: "running (run es w0) \<and> \<not> running (step e (run es w0)) \<and> e \<noteq> StopTimeout
             \<longrightarrow> requests (step e (run es w0)) = N"
    using step_stops_at_max [of "run es w0" e] o' by (auto simp add: reaches_def)
  from a b show ?thesis by blast
qed

theorem completed_counter_at_stop_witness:
  "loadTest counting_options False = Started (started_world counting_options HttpKind False 1)
   \<and> maxRequests counting_options = Val 2
   \<and> running (run [ResponseEnd 0 200] (started_world counting_options HttpKind False 1))
   \<and> requests (run [ResponseEnd 0 200] (started_world counting_options HttpKind False 1)) < 2
   \<and> \<not> running (step (ResponseEnd 1 500)
         (run [ResponseEnd 0 200] (started_world counting_options HttpKind False 1)))
   \<and> requests (step (ResponseEnd 1 500)
         (run [ResponseEnd 0 200] (started_world counting_options HttpKind False 1))) = 2"
proof -
  have m: "maxRequests counting_options = Val 2"
    by (simp add: counting_options_def empty_options_def)
  have r: "running (run [ResponseEnd 0 200] (started_world counting_options HttpKind False 1))"
    by (simp add: counting_options_def empty_options_def started_world_def model_defs Let_def)
  have s: "\<not> running (step (ResponseEnd 1 500)
         (run [ResponseEnd 0 200] (started_world counting_options HttpKind False 1)))"
    by (simp add: counting_options_def empty_options_def started_world_def model_defs Let_def)
  from completed_counter_at_stop [OF counting_started m, of "[ResponseEnd 0 200]" "ResponseEnd 1 500"]
    counting_started m r s
  show ?thesis by simp
qed

text \<open>
  Claim C3 says that \<^verbatim>\<open>stop\<close> first sets the running flag to false and then stops the
  partial-report timer. In the code the two come in the other order: in the state in which
  \<^verbatim>\<open>loadTest\<close> leaves the Operation, \<^verbatim>\<open>stop\<close> stops the timer, and the assignment to the running
  flag does not precede that.
\<close>
theorem stop_order_counterexample:
  "loadTest racing_options True = Started (started_world racing_options HttpKind True 1)
   \<and> stop_actions (started_world racing_options HttpKind True 1)
     = [ShowTimerStop, RunningFalse, ClientStop 0,
        FinalCallback \<lparr>totalRequests = 0, totalErrors = 0\<rparr>]
   \<and> \<not> precedes RunningFalse ShowTimerStop
         (stop_actions (started_world racing_options HttpKind True 1))"
proof -
  have "stop_actions (started_world racing_options HttpKind True 1)
     = [ShowTimerStop, RunningFalse, ClientStop 0,
        FinalCallback \<lparr>totalRequests = 0, totalErrors = 0\<rparr>]"
    by (simp add: stop_actions_def racing_options_def empty_options_def
        started_world_def model_defs Let_def)
  then show ?thesis using racing_started by (simp add: precedes_def)
qed

text \<open>
  Claim C3 as amended. \<^verbatim>\<open>Operation.stop\<close> performs its steps in this order: it stops the
  partial-report timer if there is one, then sets the running flag to false, then calls
  \<^verbatim>\<open>stop\<close> on every client in the order of their indices, and only then, if a result callback
  was supplied, delivers the final statistics.
\<close>
theorem stop_order:
  "stop_actions w =
     (case showTimer w of Some t \<Rightarrow> [ShowTimerStop] | None \<Rightarrow> []) @ [RunningFalse]
       @ map (\<lambda>p. ClientStop (fst p)) (clients w)
       @ (if resultCallback w then [FinalCallback (getResults (latency w))] else [])
   \<and> \<not> running (stop w)
   \<and> (showTimer w \<noteq> None \<longrightarrow> precedes ShowTimerStop RunningFalse (stop_actions w))
   \<and> (\<forall>p \<in> set (clients w). precedes RunningFalse (ClientStop (fst p)) (stop_actions w))
   \<and> (\<forall>p \<in> set (clients w). \<forall>r. \<not> precedes (FinalCallback r) (ClientStop (fst p)) (stop_actions w))"
proof -
  have a: "stop_actions w =
     (case showTimer w of Some t \<Rightarrow> [ShowTimerStop] | None \<Rightarrow> []) @ [RunningFalse]
       @ map (\<lambda>p. ClientStop (fst p)) (clients w)
       @ (if resultCallback w then [FinalCallback (getResults (latency w))] else [])"
    by (simp add: stop_actions_def stop_trace)
  have b: "\<not> running (stop w)" by (simp add: stop_fields)
  have c: "showTimer w \<noteq> None \<longrightarrow> precedes ShowTimerStop RunningFalse (stop_actions w)"
    unfolding a by (auto simp add: precedes_def)
  have d: "\<forall>p \<in> set (clients w). precedes RunningFalse (ClientStop (fst p)) (stop_actions w)"
    unfolding a by (auto simp add: precedes_def split: option.splits)
  have e: "\<forall>p \<in> set (clients w). \<forall>r. \<not> precedes (FinalCallback r) (ClientStop (fst p)) (stop_actions w)"
  proof (intro ballI allI)
    fix p r assume p: "p \<in> set (clients w)"
    have t: "takeWhile (\<lambda>x. x \<noteq> ClientStop (fst p)) (map (\<lambda>p. ClientStop (fst p)) (clients w) @ ys)
          = takeWhile (\<lambda>x. x \<noteq> ClientStop (fst p)) (map (\<lambda>p. ClientStop (fst p)) (clients w))" for ys
      using p by (intro takeWhile_append1 [of "ClientStop (fst p)"]) auto
    have "FinalCallback r \<notin> set (takeWhile (\<lambda>x. x \<noteq> ClientStop (fst p))
             (map (\<lambda>p. ClientStop (fst p)) (clients w)))"
      using set_takeWhileD by fastforce
    then show "\<not> precedes (FinalCallback r) (ClientStop (fst p)) (stop_actions w)"
      unfolding a by (auto simp add: precedes_def t split: option.splits)
  qed
  from a b c d e show ?thesis by blast
qed

theorem stop_order_witness:
  "showTimer (started_world racing_options HttpKind True 1) \<noteq> None
   \<and> (0, \<lparr>kind = HttpKind,
          request = \<lparr>target = ''http://localhost/'', protocol = Some ''http:'', agent = None,
                      request_method = None, headers = []\<rparr>,
          message = None, requestTimer = None\<rparr>)
        \<in> set (clients (started_world racing_options HttpKind True 1))
   \<and> precedes ShowTimerStop RunningFalse (stop_actions (started_world racing_options HttpKind True 1))
   \<and> precedes RunningFalse (ClientStop 0) (stop_actions (started_world racing_options HttpKind True 1))
   \<and> \<not> precedes (FinalCallback \<lparr>totalRequests = 0, totalErrors = 0\<rparr>) (ClientStop 0)
          (stop_actions (started_world racing_options HttpKind True 1))"
proof -
  have s: "showTimer (started_world racing_options HttpKind True 1) \<noteq> None"
    by (simp add: racing_options_def empty_options_def started_world_def model_defs Let_def)
  have c: "(0, \<lparr>kind = HttpKind,
          request = \<lparr>target = ''http://localhost/'', protocol = Some ''http:'', agent = None,
                      request_method = None, headers = []\<rparr>,
          message = None, requestTimer = None\<rparr>)
        \<in> set (clients (started_world racing_options HttpKind True 1))"
    by (simp add: racing_options_def empty_options_def started_world_def model_defs Let_def)
  from stop_order [of "started_world racing_options HttpKind True 1"] s c
  show ?thesis by fastforce
qed

text \<open>
  Claim C4. In a state in which the running flag is false, \<^verbatim>\<open>makeRequest\<close> changes nothing
  (no request is dispatched, no latency record is started), and the completion hook does not
  call the continue callback: it dispatches nothing and leaves the latency tracker and the
  requests in flight as they are. Hence, whatever the event loop delivers afterwards, the
  Operation stays stopped, no request is dispatched and no latency record is started.
\<close>
theorem stopped_operation_dispatches_nothing:
  assumes "\<not> running w"
  shows "makeRequest index w = w
       \<and> dispatched (callback error result next w) = dispatched w
       \<and> latency (callback error result next w) = latency w
       \<and> inflight (callback error result next w) = inflight w
       \<and> \<not> running (run es w)
       \<and> dispatched (run es w) = dispatched w
       \<and> nextId (latency (run es w)) = nextId (latency w)
       \<and> set (inflight (run es w)) \<subseteq> set (inflight w)"
  using makeRequest_stopped [OF assms] callback_stopped(1-3) [OF assms] run_stopped [OF assms]
  by simp

lemma racing_stopped:
  "\<not> running (run [ResponseEnd 0 200] (started_world racing_options HttpKind True 1))"
  by (simp add: racing_options_def empty_options_def started_world_def model_defs Let_def)

theorem stopped_operation_dispatches_nothing_witness:
  "loadTest racing_options True = Started (started_world racing_options HttpKind True 1)
   \<and> \<not> running (run [ResponseEnd 0 200] (started_world racing_options HttpKind True 1))
   \<and> makeRequest 0 (run [ResponseEnd 0 200] (started_world racing_options HttpKind True 1))
       = run [ResponseEnd 0 200] (started_world racing_options HttpKind True 1)
   \<and> dispatched (callback JNull (JBool False) (Some 0)
        (run [ResponseEnd 0 200] (started_world racing_options HttpKind True 1)))
       = dispatched (run [ResponseEnd 0 200] (started_world racing_options HttpKind True 1))
   \<and> dispatched (run [RequestTick 0, StopTimeout, ShowTick]
        (run [ResponseEnd 0 200] (started_world racing_options HttpKind True 1)))
       = dispatched (run [ResponseEnd 0 200] (started_world racing_options HttpKind True 1))"
  using stopped_operation_dispatches_nothing [OF racing_stopped, of 0 JNull "JBool False" "Some 0"
      "[RequestTick 0, StopTimeout, ShowTick]"] racing_stopped racing_started
  by simp

text \<open>
  Claim C5. The function that finishes a request passes the client's \<^verbatim>\<open>makeRequest\<close> to the
  completion hook exactly when no request rate is configured, which is when \<^verbatim>\<open>start\<close> makes the
  first request itself instead of creating a timer. With a request rate, the completion hook
  receives no continue callback, and neither \<^verbatim>\<open>start\<close> nor the completion of a request
  dispatches a request.
\<close>
theorem continue_only_in_closed_loop:
  "requestFinished index ident error result w =
     callback error result
       (if truthy_num (requestsPerSecond (opts w)) then None else Some index)
       (emit (LatencyEnd ident (finisher_errorCode error result))
          (w\<lparr>latency := latency_end ident (finisher_errorCode error result) (latency w)\<rparr>))
   \<and> (\<not> truthy_num (requestsPerSecond (opts w)) \<longrightarrow>
        finisher_callback (opts w) index = Some index
        \<and> client_start index w = makeRequest index w)
   \<and> (truthy_num (requestsPerSecond (opts w)) \<longrightarrow>
        finisher_callback (opts w) index = None
        \<and> dispatched (client_start index w) = dispatched w
        \<and> dispatched (requestFinished index ident error result w) = dispatched w
        \<and> (completes e \<noteq> None \<longrightarrow> dispatched (step e w) = dispatched w))"
proof -
  have a: "requestFinished index ident error result w =
     callback error result
       (if truthy_num (requestsPerSecond (opts w)) then None else Some index)
       (emit (LatencyEnd ident (finisher_errorCode error result))
          (w\<lparr>latency := latency_end ident (finisher_errorCode error result) (latency w)\<rparr>))"
    by (simp add: requestFinished_def Let_def finisher_callback_def emit_fields)
  have b: "\<not> truthy_num (requestsPerSecond (opts w)) \<longrightarrow>
        finisher_callback (opts w) index = Some index
        \<and> client_start index w = makeRequest index w"
    by (simp add: finisher_callback_def client_start_def)
  have c: "truthy_num (requestsPerSecond (opts w)) \<longrightarrow>
        finisher_callback (opts w) index = None
        \<and> dispatched (client_start index w) = dispatched w
        \<and> dispatched (requestFinished index ident error result w) = dispatched w"
    using requestFinished_dispatched [of index ident error result w]
    by (auto simp add: finisher_callback_def client_start_def dispatched_update
        split: option.splits jsfield.splits)
  have d: "truthy_num (requestsPerSecond (opts w)) \<longrightarrow> completes e \<noteq> None \<longrightarrow>
        dispatched (step e w) = dispatched w"
  proof (intro impI)
    assume t: "truthy_num (requestsPerSecond (opts w))" and "completes e \<noteq> None"
    then obtain k where k: "completes e = Some k" by auto
    show "dispatched (step e w) = dispatched w"
      using t k by (rule step_paced_dispatched)
  qed
  from a b c d show ?thesis by blast
qed

lemma paced_started:
  "loadTest paced_options False = Started (started_world paced_options HttpKind False 1)"
  by (simp add: paced_options_def empty_options_def started_world_def model_defs Let_def)

lemma paced_world:
  "truthy_num (requestsPerSecond
      (opts (run [StartTimeout 0, RequestTick 0] (started_world paced_options HttpKind False 1))))"
  "map_of (inflight (run [StartTimeout 0, RequestTick 0]
      (started_world paced_options HttpKind False 1))) 0 = Some 0"
  by (simp_all add: paced_options_def empty_options_def started_world_def model_defs Let_def)

lemma counting_world:
  "\<not> truthy_num (requestsPerSecond (opts (started_world counting_options HttpKind False 1)))"
  by (simp add: counting_options_def empty_options_def started_world_def model_defs Let_def)

theorem continue_only_in_closed_loop_witness:
  "loadTest counting_options False = Started (started_world counting_options HttpKind False 1)
   \<and> loadTest paced_options False = Started (started_world paced_options HttpKind False 1)
   \<and> \<not> truthy_num (requestsPerSecond (opts (started_world counting_options HttpKind False 1)))
   \<and> finisher_callback (opts (started_world counting_options HttpKind False 1)) 0 = Some 0
   \<and> truthy_num (requestsPerSecond
       (opts (run [StartTimeout 0, RequestTick 0] (started_world paced_options HttpKind False 1))))
   \<and> finisher_callback
       (opts (run [StartTimeout 0, RequestTick 0] (started_world paced_options HttpKind False 1))) 0
        = None
   \<and> completes (ResponseEnd 0 200) \<noteq> None
   \<and> dispatched (step (ResponseEnd 0 200)
         (run [StartTimeout 0, RequestTick 0] (started_world paced_options HttpKind False 1)))
       = dispatched (run [StartTimeout 0, RequestTick 0]
           (started_world paced_options HttpKind False 1))"
  using continue_only_in_closed_loop [of 0 0 JNull "JBool False"
      "started_world counting_options HttpKind False 1" "ResponseEnd 0 200"]
    continue_only_in_closed_loop [of 0 0 JNull "JBool False"
      "run [StartTimeout 0, RequestTick 0] (started_world paced_options HttpKind False 1)"
      "ResponseEnd 0 200"]
    counting_world paced_world(1) counting_started paced_started
  by simp








text \<open>
  Claim C7. When a request in flight is finished, \<^verbatim>\<open>latency.end\<close> is called with its id and
  with the error code \<^verbatim>\<open>'-1'\<close> for an error of the request, \<^verbatim>\<open>'1'\<close> for an error of the
  connection, the numeric status for a response status of 300 or more, and \<^verbatim>\<open>null\<close> otherwise.
  In every case the counter of completed requests grows by one, and the Operation keeps
  running unless the counter has reached \<^verbatim>\<open>maxRequests\<close>: the error itself never stops the run.
\<close>
theorem request_errors_are_absorbed:
  assumes "map_of (inflight w) ident = Some index"
  shows "ended (step (RequestError ident msg) w) = ended w @ [(ident, JString ''-1'')]
       \<and> ended (step (ConnectionError ident err) w) = ended w @ [(ident, JString ''1'')]
       \<and> (300 \<le> statusCode \<longrightarrow>
            ended (step (ResponseEnd ident statusCode) w) = ended w @ [(ident, JNumber statusCode)])
       \<and> (statusCode < 300 \<longrightarrow>
            ended (step (ResponseEnd ident statusCode) w) = ended w @ [(ident, JNull)])
       \<and> (completes e = Some ident \<longrightarrow>
            requests (step e w) = requests w + 1
            \<and> running (step e w) =
                (running w \<and> \<not> (truthy_num (maxRequests (opts w))
                                 \<and> reaches (requests w + 1) (maxRequests (opts w)))))"
proof -
  have r: "map_of (registered w) ident = Some index"
    using assms by (rule registered_inflight)
  have "completes e = Some ident \<longrightarrow>
          requests (step e w) = requests w + 1
          \<and> running (step e w) =
              (running w \<and> \<not> (truthy_num (maxRequests (opts w))
                               \<and> reaches (requests w + 1) (maxRequests (opts w))))"
    using step_completion_counts(1,2) [of e ident w index] r by blast
  then show ?thesis
    using r by (simp add: ended_finish ended_settle ended_uncaught)
qed

lemma counting_inflight:
  "map_of (inflight (started_world counting_options HttpKind False 1)) 0 = Some 0"
  by (simp add: counting_options_def empty_options_def started_world_def model_defs Let_def)

theorem request_errors_are_absorbed_witness:
  "loadTest counting_options False = Started (started_world counting_options HttpKind False 1)
   \<and> map_of (inflight (started_world counting_options HttpKind False 1)) 0 = Some 0
   \<and> ended (step (RequestError 0 ''ECONNREFUSED'') (started_world counting_options HttpKind False 1))
       = [(0, JString ''-1'')]
   \<and> ended (step (ConnectionError 0 ''reset'') (started_world counting_options HttpKind False 1))
       = [(0, JString ''1'')]
   \<and> (300::nat) \<le> 500
   \<and> ended (step (ResponseEnd 0 500) (started_world counting_options HttpKind False 1))
       = [(0, JNumber 500)]
   \<and> completes (ResponseEnd 0 500) = Some 0
   \<and> requests (step (ResponseEnd 0 500) (started_world counting_options HttpKind False 1)) = 1
   \<and> running (step (ResponseEnd 0 500) (started_world counting_options HttpKind False 1))"
proof -
  have e: "ended (started_world counting_options HttpKind False 1) = []"
    by (simp add: ended_def counting_options_def empty_options_def started_world_def model_defs
        Let_def)
  have r: "running (started_world counting_options HttpKind False 1)"
    "requests (started_world counting_options HttpKind False 1) = 0"
    "maxRequests (opts (started_world counting_options HttpKind False 1)) = Val 2"
    by (simp_all add: counting_options_def empty_options_def started_world_def model_defs
        Let_def)
  from request_errors_are_absorbed [OF counting_inflight, of "''ECONNREFUSED''" "''reset''" 500
      "ResponseEnd 0 500"] counting_inflight counting_started e r
  show ?thesis by (simp add: reaches_def truthy_num_def)
qed

text \<open>
  Claim C8. For options without a \<^verbatim>\<open>url\<close> field, \<^verbatim>\<open>loadTest\<close> reports the missing URL and
  returns: no Operation is created, no client is started and no request is dispatched.
\<close>
theorem missing_url_is_refused:
  assumes "url options = Absent"
  shows "loadTest options cb = Refused [LogError ''Missing URL in options'']"
  using assms by (simp add: loadTest_def truthy_str_def)

theorem missing_url_is_refused_witness:
  "url empty_options = Absent
   \<and> loadTest empty_options True = Refused [LogError ''Missing URL in options'']"
  using missing_url_is_refused [of empty_options True] by (simp add: empty_options_def)

lemma client_constructor_nonempty: "client_constructor u = Some k \<Longrightarrow> u \<noteq> []"
  by (auto simp add: client_constructor_def startsWith_def split: if_splits)

lemma startClients_raises:
  assumes "truthy_str (indexParam (opts w))" "0 < loop_bound (concurrency (opts w))"
  shows "startClients w = Inl (ReferenceError ''indexParam'', w)"
proof -
  from assms(2) obtain n where "loop_bound (concurrency (opts w)) = Suc n"
    by (cases "loop_bound (concurrency (opts w))") simp_all
  then show ?thesis using assms(1) by (simp add: startClients_def)
qed

text \<open>
  Claim C9. When the \<^verbatim>\<open>indexParam\<close> option is set (truthy) and the URL selects a client,
  \<^verbatim>\<open>startClients\<close> raises a \<^verbatim>\<open>ReferenceError\<close> for the undeclared identifier \<^verbatim>\<open>indexParam\<close> in
  its first iteration, before any client is constructed, and \<^verbatim>\<open>loadTest\<close> ends with that
  exception: no client is created and no request is dispatched.
\<close>
theorem indexParam_raises:
  assumes "truthy_str (indexParam options)" and "url options = Val u"
    and "client_constructor u = Some k"
  shows "startClients ((first_world options k cb)\<lparr>latency := Latency\<rparr>)
           = Inl (ReferenceError ''indexParam'', (first_world options k cb)\<lparr>latency := Latency\<rparr>)
       \<and> loadTest options cb
           = Raised (ReferenceError ''indexParam'') ((first_world options k cb)\<lparr>latency := Latency\<rparr>)
       \<and> clients ((first_world options k cb)\<lparr>latency := Latency\<rparr>) = []
       \<and> inflight ((first_world options k cb)\<lparr>latency := Latency\<rparr>) = []
       \<and> clients_created (loadTest options cb) = 0"
proof -
  let ?w = "(first_world options k cb)\<lparr>latency := Latency\<rparr>"
  have i: "truthy_str (indexParam (opts ?w))"
    using assms(1) by (simp add: first_world_fields prepare_fields)
  have b: "0 < loop_bound (concurrency (opts ?w))"
    by (simp add: first_world_fields loop_bound_prepare)
  have s: "startClients ?w = Inl (ReferenceError ''indexParam'', ?w)"
    by (rule startClients_raises [OF i b])
  have l: "loadTest options cb = Raised (ReferenceError ''indexParam'') ?w"
    using s assms(2,3) client_constructor_nonempty [OF assms(3)]
    by (simp add: loadTest_def operation_start_def truthy_str_def)
  show ?thesis using s l by (simp add: first_world_fields clients_created_def)
qed

theorem indexParam_raises_witness:
  "truthy_str (indexParam index_options)
   \<and> url index_options = Val ''http://localhost/?id=N''
   \<and> client_constructor ''http://localhost/?id=N'' = Some HttpKind
   \<and> loadTest index_options False
       = Raised (ReferenceError ''indexParam'')
           ((first_world index_options HttpKind False)\<lparr>latency := Latency\<rparr>)
   \<and> clients_created (loadTest index_options False) = 0"
proof -
  have a: "truthy_str (indexParam index_options)"
    "url index_options = Val ''http://localhost/?id=N''"
    by (simp_all add: index_options_def empty_options_def truthy_str_def)
  have c: "client_constructor ''http://localhost/?id=N'' = Some HttpKind"
    by (simp add: client_constructor_def startsWith_def)
  from indexParam_raises [OF a c, of False] a c show ?thesis
    by (simp add: clients_created_def first_world_fields)
qed



text \<open>Two ways in which \<^verbatim>\<open>loadTest\<close> raises after it has set \<^verbatim>\<open>concurrency\<close>. A body that is
  a number makes the constructor throw before the client is stored. An \<^verbatim>\<open>https\<close> URL selects
  the HTTP client, which is constructed and stored, and \<^verbatim>\<open>http.request\<close> throws on its first
  request.\<close>

lemma numeric_body_raises:
  "loadTest numeric_body_options False
     = Raised (TypeError ''message.length: message is undefined'')
         (((first_world numeric_body_options HttpKind False)\<lparr>latency := Latency\<rparr>)
            \<lparr>trace := [LogError ''Unrecognized body: number'']\<rparr>)
   \<and> clients_created (loadTest numeric_body_options False) = 0"
  by (simp add: numeric_body_options_def empty_options_def clients_created_def model_defs Let_def)

lemma https_url_raises:
  "(case loadTest https_options False of
      Raised e w \<Rightarrow> e = Error ''Protocol:https: not supported.''
                     \<and> map fst (clients w) = [0] \<and> inflight w = []
    | _ \<Rightarrow> False)"
  by (simp add: https_options_def empty_options_def model_defs Let_def)



end
